theory Spec2Isabelle
  imports Complex_Main
begin

section \<open>Common conventions\<close>

text \<open>
  JavaScript numbers (media positions in seconds, \<^verbatim>\<open>Date.now()\<close> readings in
  milliseconds) are modelled as reals; rounding of IEEE doubles is not modelled. Objects
  used as dictionaries are maps over their own keys; the members that every object
  inherits from \<^verbatim>\<open>Object.prototype\<close> are modelled in the membership test of
  \<^verbatim>\<open>promoteLeader\<close>, where they decide who leads a room, and nowhere else. A value that may be \<^verbatim>\<open>null\<close> or
  \<^verbatim>\<open>undefined\<close> is an option; the JavaScript truthiness test on a string-or-null value
  is \<open>truthy\<close>: null, undefined and the empty string are falsy.
\<close>

type_synonym socket_id = string
type_synonym room_id = string

fun truthy :: "string option \<Rightarrow> bool" where
  "truthy None = False"
| "truthy (Some s) = (s \<noteq> [])"

section \<open>The sync engine (syncEngine.ts)\<close>

record SyncState =
  serverOffset :: real
  lastSyncTime :: real
  isConnected :: bool
  driftHistory :: "real list"

definition initialSyncState :: SyncState where
  "initialSyncState =
     \<lparr> serverOffset = 0, lastSyncTime = 0, isConnected = False, driftHistory = [] \<rparr>"

definition DRIFT_HISTORY_SIZE :: nat where
  "DRIFT_HISTORY_SIZE = 10"

definition MAX_DRIFT_MS :: real where
  "MAX_DRIFT_MS = 150"

text \<open>
  \<^verbatim>\<open>calculateServerOffset(serverUrl?)\<close>. The readings of the clock are parameters:
  \<open>clientStartTime\<close> before the probe, \<open>clientEndTime\<close> after the answer, \<open>tDone\<close> the
  last reading that stamps \<open>lastSyncTime\<close>. \<open>response\<close> is the \<^verbatim>\<open>timestamp\<close> field of
  the answer of \<^verbatim>\<open>/health\<close>, or \<open>None\<close> when \<^verbatim>\<open>fetch\<close> or \<^verbatim>\<open>json()\<close> throws (the
  \<^verbatim>\<open>catch\<close> branch).
\<close>

definition calculateServerOffset ::
  "SyncState \<Rightarrow> string option \<Rightarrow> real \<Rightarrow> real option \<Rightarrow> real \<Rightarrow> real \<Rightarrow> SyncState" where
  "calculateServerOffset st serverUrl clientStartTime response clientEndTime tDone =
     (if truthy serverUrl then
        (case response of
           None \<Rightarrow> st\<lparr> isConnected := False \<rparr>
         | Some serverTime \<Rightarrow>
             (let roundTripTime = clientEndTime - clientStartTime;
                  estimatedServerNow = serverTime + (roundTripTime / 2)
              in st\<lparr> serverOffset := estimatedServerNow - clientEndTime,
                      lastSyncTime := tDone, isConnected := True \<rparr>))
      else st\<lparr> lastSyncTime := tDone, isConnected := True \<rparr>)"

definition getServerTime :: "SyncState \<Rightarrow> real \<Rightarrow> real" where
  "getServerTime st localTime = localTime + serverOffset st"

definition getLocalTime :: "SyncState \<Rightarrow> real \<Rightarrow> real" where
  "getLocalTime st serverTime = serverTime - serverOffset st"

text \<open>
  \<^verbatim>\<open>calculateCurrentMediaTime\<close>; \<open>now\<close> is the reading of \<^verbatim>\<open>Date.now()\<close> that
  \<^verbatim>\<open>getServerTime()\<close> takes as its default argument.
\<close>

definition calculateCurrentMediaTime :: "SyncState \<Rightarrow> real \<Rightarrow> real \<Rightarrow> bool \<Rightarrow> real \<Rightarrow> real" where
  "calculateCurrentMediaTime st leaderMediaTime leaderServerTs playing now =
     (if \<not> playing then leaderMediaTime
      else (let currentServerTime = getServerTime st now;
                timeSinceLeaderUpdate = (currentServerTime - leaderServerTs) / 1000
            in leaderMediaTime + timeSinceLeaderUpdate))"

definition calculateDrift :: "real \<Rightarrow> real \<Rightarrow> real" where
  "calculateDrift expectedTime actualTime = actualTime - expectedTime"

text \<open>\<^verbatim>\<open>recordDrift\<close>: push, then shift the oldest sample out when over the bound.\<close>

definition recordDrift :: "SyncState \<Rightarrow> real \<Rightarrow> SyncState" where
  "recordDrift st drift =
     (let h = driftHistory st @ [drift]
      in st\<lparr> driftHistory := (if length h > DRIFT_HISTORY_SIZE then tl h else h) \<rparr>)"

definition getAverageDrift :: "SyncState \<Rightarrow> real" where
  "getAverageDrift st =
     (if length (driftHistory st) = 0 then 0
      else foldl (\<lambda>acc drift. acc + drift) 0 (driftHistory st) / real (length (driftHistory st)))"

definition shouldCorrectDrift :: "real \<Rightarrow> bool" where
  "shouldCorrectDrift drift = (\<bar>drift\<bar> > MAX_DRIFT_MS / 1000)"

definition calculateCorrectionAmount :: "real \<Rightarrow> real" where
  "calculateCorrectionAmount drift =
     (if \<bar>drift\<bar> < 0.5 then drift * 0.1 else drift * 0.5)"

text \<open>
  \<^verbatim>\<open>applyCorrectionIfNeeded(expectedTime, actualTime, onSeek)\<close>: the result is the
  engine state, the argument \<^verbatim>\<open>onSeek\<close> was called with (if it was called), and the
  boolean the method returns.
\<close>

definition applyCorrectionIfNeeded :: "SyncState \<Rightarrow> real \<Rightarrow> real \<Rightarrow> SyncState \<times> real option \<times> bool" where
  "applyCorrectionIfNeeded st expectedTime actualTime =
     (let drift = calculateDrift expectedTime actualTime;
          st' = recordDrift st drift
      in if shouldCorrectDrift drift then
           (let correction = calculateCorrectionAmount drift;
                correctedTime = actualTime - correction
            in (st', Some correctedTime, True))
         else (st', None, False))"

definition resetDriftHistory :: "SyncState \<Rightarrow> SyncState" where
  "resetDriftHistory st = st\<lparr> driftHistory := [] \<rparr>"

section \<open>The room registry (server/state.js)\<close>

text \<open>
  The request id is the template string \<^verbatim>\<open>`${socket.id}_${Date.now()}`\<close>; it is
  modelled as the pair of its two parts.
\<close>

type_synonym req_id = "socket_id \<times> real"

record request =
  socketId :: socket_id
  reqName :: string
  timestamp :: real

record token =
  createdAt :: real
  createdBy :: socket_id
  expiresAt :: real

text \<open>
  \<open>participants\<close> maps a socket id to the \<^verbatim>\<open>name\<close> of the object \<^verbatim>\<open>{ name }\<close>.
  \<^verbatim>\<open>createRoom\<close> does not create \<open>pendingRequests\<close> and \<open>shareTokens\<close>; the handlers
  add them on first use, so both are optional.
\<close>

record room =
  leaderId :: "socket_id option"
  mediaKind :: "string option"
  mediaRef :: "string option"
  isPlaying :: bool
  leaderMediaTime :: real
  leaderServerTs :: real
  participants :: "socket_id \<rightharpoonup> string"
  pendingRequests :: "(req_id \<rightharpoonup> request) option"
  shareTokens :: "(string \<rightharpoonup> token) option"

type_synonym registry = "room_id \<rightharpoonup> room"

definition newRoom :: room where
  "newRoom = \<lparr> leaderId = None, mediaKind = None, mediaRef = None, isPlaying = False,
               leaderMediaTime = 0, leaderServerTs = 0, participants = Map.empty,
               pendingRequests = None, shareTokens = None \<rparr>"

definition createRoom :: "registry \<Rightarrow> room_id \<Rightarrow> registry \<times> room" where
  "createRoom rs roomId =
     (case rs roomId of
        None \<Rightarrow> (rs(roomId \<mapsto> newRoom), newRoom)
      | Some r \<Rightarrow> (rs, r))"

definition getRoom :: "registry \<Rightarrow> room_id \<Rightarrow> room option" where
  "getRoom rs roomId = rs roomId"

definition deleteRoom :: "registry \<Rightarrow> room_id \<Rightarrow> registry" where
  "deleteRoom rs roomId = rs(roomId := None)"

definition addParticipant :: "registry \<Rightarrow> room_id \<Rightarrow> socket_id \<Rightarrow> string \<Rightarrow> registry \<times> room" where
  "addParticipant rs roomId sid nm =
     (let (rs1, r) = createRoom rs roomId;
          r1 = r\<lparr> participants := (participants r)(sid \<mapsto> nm) \<rparr>;
          r2 = (if \<not> truthy (leaderId r1) then r1\<lparr> leaderId := Some sid \<rparr> else r1)
      in (rs1(roomId \<mapsto> r2), r2))"

definition removeParticipant :: "registry \<Rightarrow> room_id \<Rightarrow> socket_id \<Rightarrow> registry \<times> room option" where
  "removeParticipant rs roomId sid =
     (case getRoom rs roomId of
        None \<Rightarrow> (rs, None)
      | Some r \<Rightarrow>
          (let wasLeader = (leaderId r = Some sid);
               r1 = r\<lparr> participants := (participants r)(sid := None) \<rparr>
           in if wasLeader then (deleteRoom rs roomId, None)
              else if dom (participants r1) = {} then (deleteRoom rs roomId, None)
              else (rs(roomId \<mapsto> r1), Some r1)))"

text \<open>
  The names every plain object inherits from \<^verbatim>\<open>Object.prototype\<close>. \<^verbatim>\<open>participants\<close> is
  an object literal, so \<^verbatim>\<open>room.participants[key]\<close> is truthy when \<open>key\<close> is an own key
  (its value is an object) and also when \<open>key\<close> is one of these names (the value is the
  inherited function, or the prototype itself for \<^verbatim>\<open>__proto__\<close>).
\<close>

definition object_prototype_names :: "string list" where
  "object_prototype_names =
     [''constructor'', ''toString'', ''toLocaleString'', ''valueOf'', ''hasOwnProperty'',
      ''isPrototypeOf'', ''propertyIsEnumerable'', ''__proto__'', ''__defineGetter__'',
      ''__defineSetter__'', ''__lookupGetter__'', ''__lookupSetter__'']"

definition has_property :: "(string \<rightharpoonup> 'v) \<Rightarrow> string \<Rightarrow> bool" where
  "has_property obj key = (obj key \<noteq> None \<or> key \<in> set object_prototype_names)"

definition promoteLeader :: "registry \<Rightarrow> room_id \<Rightarrow> socket_id \<Rightarrow> registry \<times> room option" where
  "promoteLeader rs roomId newLeaderId =
     (case getRoom rs roomId of
        None \<Rightarrow> (rs, None)
      | Some r \<Rightarrow>
          (if has_property (participants r) newLeaderId
           then (let r1 = r\<lparr> leaderId := Some newLeaderId \<rparr> in (rs(roomId \<mapsto> r1), Some r1))
           else (rs, None)))"

section \<open>The server (server.js)\<close>

subsection \<open>Transport state and messages\<close>

text \<open>
  The server-side object of a connection: the ad-hoc properties the handlers hang on it
  (\<open>joinCallback\<close> records that a callback is stored), and \<open>joined\<close>, the transport rooms
  entered with \<^verbatim>\<open>socket.join\<close> and not yet left. \<open>sockets\<close> models
  \<^verbatim>\<open>io.sockets.sockets\<close>, the transport's map of the connected sockets.
\<close>

record sock =
  joinCallback :: bool
  pendingRoomId :: "room_id option"
  pendingName :: "string option"
  joined :: "room_id set"

record server_state =
  rooms :: registry
  sockets :: "socket_id \<rightharpoonup> sock"

definition newSock :: sock where
  "newSock = \<lparr> joinCallback = False, pendingRoomId = None, pendingName = None, joined = {} \<rparr>"

definition initialServer :: server_state where
  "initialServer = \<lparr> rooms = Map.empty, sockets = Map.empty \<rparr>"

text \<open>
  Where a message goes: \<open>Ack sid\<close> is a call of the join callback that socket \<open>sid\<close>
  passed; \<open>ToSocket\<close> is \<^verbatim>\<open>socket.emit\<close> on that socket; \<open>ToRoom\<close> is
  \<^verbatim>\<open>io.to(room).emit\<close>; \<open>ToRoomExcept room sid\<close> is \<^verbatim>\<open>socket.to(room).emit\<close> on the
  socket \<open>sid\<close>, which leaves the sender out.
\<close>

datatype target =
    Ack socket_id
  | ToSocket socket_id
  | ToRoom room_id
  | ToRoomExcept room_id socket_id

datatype payload =
    Join_ack socket_id bool "string option" "string option" bool real real
  | Join_error string
  | Participant_joined socket_id string "socket_id \<rightharpoonup> string"
  | Participant_join_request req_id string
  | Sync_state real real bool "string option" "string option"
  | Control_update string "real option" real real bool
  | Media_cleared
  | Leader_changed socket_id "socket_id \<rightharpoonup> string"
  | Participant_kicked string
  | Participant_left socket_id "socket_id \<rightharpoonup> string" "socket_id option" "(string \<times> string) option"
  | Participant_kicked_notification socket_id string string
  | Room_closed string
  | Snapshot_response "string option" "string option" bool real real "socket_id option"
      "socket_id \<rightharpoonup> string"

type_synonym emission = "target \<times> payload"

text \<open>
  The connected sockets a message reaches. Every socket is in the transport room named
  by its own id.
\<close>

definition in_transport_room :: "server_state \<Rightarrow> socket_id \<Rightarrow> room_id \<Rightarrow> bool" where
  "in_transport_room st sid r =
     (case sockets st sid of None \<Rightarrow> False | Some k \<Rightarrow> r = sid \<or> r \<in> joined k)"

fun recipients :: "server_state \<Rightarrow> target \<Rightarrow> socket_id set" where
  "recipients st (Ack sid) = {x. x = sid \<and> sockets st x \<noteq> None}"
| "recipients st (ToSocket sid) = {x. x = sid \<and> sockets st x \<noteq> None}"
| "recipients st (ToRoom r) = {x. in_transport_room st x r}"
| "recipients st (ToRoomExcept r sid) = {x. in_transport_room st x r \<and> x \<noteq> sid}"

definition map_sock :: "socket_id \<Rightarrow> (sock \<Rightarrow> sock) \<Rightarrow> server_state \<Rightarrow> server_state" where
  "map_sock sid f st =
     (case sockets st sid of
        None \<Rightarrow> st
      | Some k \<Rightarrow> st\<lparr> sockets := (sockets st)(sid \<mapsto> f k) \<rparr>)"

definition socket_join :: "socket_id \<Rightarrow> room_id \<Rightarrow> server_state \<Rightarrow> server_state" where
  "socket_join sid r st = map_sock sid (\<lambda>k. k\<lparr> joined := insert r (joined k) \<rparr>) st"

definition socket_leave :: "socket_id \<Rightarrow> room_id \<Rightarrow> server_state \<Rightarrow> server_state" where
  "socket_leave sid r st = map_sock sid (\<lambda>k. k\<lparr> joined := joined k - {r} \<rparr>) st"

definition clear_pending :: "sock \<Rightarrow> sock" where
  "clear_pending k = k\<lparr> joinCallback := False, pendingRoomId := None, pendingName := None \<rparr>"

subsection \<open>join_room\<close>

text \<open>
  The test \<^verbatim>\<open>shareToken && existingRoom.shareTokens && existingRoom.shareTokens[shareToken]\<close>
  and the token data it finds.
\<close>

definition find_token :: "string option \<Rightarrow> room \<Rightarrow> (string \<times> token) option" where
  "find_token shareToken r =
     (case shareToken of
        None \<Rightarrow> None
      | Some t \<Rightarrow>
          (if t = [] then None
           else (case shareTokens r of
                   None \<Rightarrow> None
                 | Some toks \<Rightarrow> (case toks t of None \<Rightarrow> None | Some td \<Rightarrow> Some (t, td)))))"

text \<open>
  The two places where the handler admits the caller: \<^verbatim>\<open>socket.join\<close>,
  \<^verbatim>\<open>addParticipant\<close>, the acknowledgement and the notice to the others. With a share
  token the acknowledgement says \<^verbatim>\<open>isLeader: false\<close>; on the direct path it says
  \<^verbatim>\<open>room.leaderId === socket.id\<close>.
\<close>

definition admit :: "server_state \<Rightarrow> socket_id \<Rightarrow> room_id \<Rightarrow> string \<Rightarrow> bool \<Rightarrow> server_state \<times> emission list" where
  "admit st sid roomId nm viaToken =
     (let st1 = socket_join sid roomId st;
          (rs, r) = addParticipant (rooms st1) roomId sid nm
      in (st1\<lparr> rooms := rs \<rparr>,
          [(Ack sid, Join_ack sid (if viaToken then False else leaderId r = Some sid)
                      (mediaKind r) (mediaRef r) (isPlaying r) (leaderMediaTime r) (leaderServerTs r)),
           (ToRoomExcept roomId sid, Participant_joined sid nm (participants r))]))"

definition expired_link :: string where
  "expired_link = ''Share link has expired. Please request a new one from the room leader.''"

text \<open>
  \<open>now\<close> is the first reading of \<^verbatim>\<open>Date.now()\<close> in the handler (the expiry test, or
  the request id), \<open>now2\<close> the second one (the timestamp of the pending request).
\<close>

definition join_room ::
  "server_state \<Rightarrow> socket_id \<Rightarrow> room_id \<Rightarrow> string \<Rightarrow> string option \<Rightarrow> real \<Rightarrow> real
     \<Rightarrow> server_state \<times> emission list" where
  "join_room st sid roomId nm shareToken now now2 =
     (case getRoom (rooms st) roomId of
        None \<Rightarrow> admit st sid roomId nm False
      | Some existingRoom \<Rightarrow>
          (if truthy (leaderId existingRoom) then
             (case find_token shareToken existingRoom of
                Some (t, tokenData) \<Rightarrow>
                  (if now < expiresAt tokenData then admit st sid roomId nm True
                   else (st\<lparr> rooms := (rooms st)(roomId \<mapsto> existingRoom
                               \<lparr> shareTokens := map_option (\<lambda>toks. toks(t := None))
                                                  (shareTokens existingRoom) \<rparr>) \<rparr>,
                         [(Ack sid, Join_error expired_link)]))
              | None \<Rightarrow>
                  (let requestId = (sid, now);
                       pr = (case pendingRequests existingRoom of None \<Rightarrow> Map.empty | Some p \<Rightarrow> p);
                       r1 = existingRoom\<lparr> pendingRequests := Some (pr(requestId \<mapsto>
                              \<lparr> socketId = sid, reqName = nm, timestamp = now2 \<rparr>)) \<rparr>;
                       st1 = st\<lparr> rooms := (rooms st)(roomId \<mapsto> r1) \<rparr>;
                       st2 = map_sock sid (\<lambda>k. k\<lparr> joinCallback := True,
                               pendingRoomId := Some roomId, pendingName := Some nm \<rparr>) st1
                   in (st2, [(ToRoomExcept (the (leaderId existingRoom)) sid,
                              Participant_join_request requestId nm)])))
           else admit st sid roomId nm False))"

subsection \<open>Leader-only media handlers\<close>

definition leader_state ::
  "server_state \<Rightarrow> socket_id \<Rightarrow> room_id \<Rightarrow> real \<Rightarrow> bool \<Rightarrow> string option \<Rightarrow> string option \<Rightarrow> real
     \<Rightarrow> server_state \<times> emission list" where
  "leader_state st sid roomId mediaTime playing mk mr now =
     (case getRoom (rooms st) roomId of
        None \<Rightarrow> (st, [])
      | Some r \<Rightarrow>
          (if leaderId r \<noteq> Some sid then (st, [])
           else
             (let r1 = r\<lparr> leaderMediaTime := mediaTime, leaderServerTs := now, isPlaying := playing \<rparr>;
                  r2 = (if truthy mk then r1\<lparr> mediaKind := mk \<rparr> else r1);
                  r3 = (if truthy mr then r2\<lparr> mediaRef := mr \<rparr> else r2)
              in (st\<lparr> rooms := (rooms st)(roomId \<mapsto> r3) \<rparr>,
                  [(ToRoomExcept roomId sid,
                    Sync_state mediaTime (leaderServerTs r3) playing (mediaKind r3) (mediaRef r3))]))))"

text \<open>
  \<open>ty\<close> is the \<^verbatim>\<open>type\<close> string of the message; \<open>toTime\<close> is \<open>Some t\<close> exactly when
  \<^verbatim>\<open>typeof toTime === 'number'\<close>.
\<close>

definition control ::
  "server_state \<Rightarrow> socket_id \<Rightarrow> room_id \<Rightarrow> string \<Rightarrow> real option \<Rightarrow> real
     \<Rightarrow> server_state \<times> emission list" where
  "control st sid roomId ty toTime now =
     (case getRoom (rooms st) roomId of
        None \<Rightarrow> (st, [])
      | Some r \<Rightarrow>
          (if leaderId r \<noteq> Some sid then (st, [])
           else
             (let r1 = (if ty = ''PLAY'' then r\<lparr> isPlaying := True, leaderServerTs := now \<rparr>
                        else if ty = ''PAUSE'' then r\<lparr> isPlaying := False, leaderServerTs := now \<rparr>
                        else if ty = ''SEEK'' then
                          (case toTime of
                             Some t \<Rightarrow> r\<lparr> leaderMediaTime := t, leaderServerTs := now \<rparr>
                           | None \<Rightarrow> r)
                        else r)
              in (st\<lparr> rooms := (rooms st)(roomId \<mapsto> r1) \<rparr>,
                  [(ToRoom roomId,
                    Control_update ty toTime (leaderMediaTime r1) (leaderServerTs r1) (isPlaying r1))]))))"

definition media_cleared :: "server_state \<Rightarrow> socket_id \<Rightarrow> room_id \<Rightarrow> real \<Rightarrow> server_state \<times> emission list" where
  "media_cleared st sid roomId now =
     (case getRoom (rooms st) roomId of
        None \<Rightarrow> (st, [])
      | Some r \<Rightarrow>
          (if leaderId r \<noteq> Some sid then (st, [])
           else (st\<lparr> rooms := (rooms st)(roomId \<mapsto> r\<lparr> mediaKind := None, mediaRef := None,
                       isPlaying := False, leaderMediaTime := 0, leaderServerTs := now \<rparr>) \<rparr>,
                 [(ToRoom roomId, Media_cleared)])))"

subsection \<open>Membership handlers\<close>

definition promote_leader :: "server_state \<Rightarrow> socket_id \<Rightarrow> room_id \<Rightarrow> socket_id \<Rightarrow> server_state \<times> emission list" where
  "promote_leader st sid roomId participantId =
     (case getRoom (rooms st) roomId of
        None \<Rightarrow> (st, [])
      | Some r \<Rightarrow>
          (if leaderId r \<noteq> Some sid then (st, [])
           else (case promoteLeader (rooms st) roomId participantId of
                   (rs, Some updatedRoom) \<Rightarrow>
                     (st\<lparr> rooms := rs \<rparr>,
                      [(ToRoom roomId, Leader_changed participantId (participants updatedRoom))])
                 | (rs, None) \<Rightarrow> (st\<lparr> rooms := rs \<rparr>, []))))"

definition kick_participant :: "server_state \<Rightarrow> socket_id \<Rightarrow> room_id \<Rightarrow> socket_id \<Rightarrow> server_state \<times> emission list" where
  "kick_participant st sid roomId participantId =
     (case getRoom (rooms st) roomId of
        None \<Rightarrow> (st, [])
      | Some r \<Rightarrow>
          (if leaderId r \<noteq> Some sid then (st, [])
           else if participantId = sid then (st, [])
           else
             (let participantName =
                    (case participants r participantId of
                       None \<Rightarrow> ''Unknown''
                     | Some n \<Rightarrow> if n = [] then ''Unknown'' else n);
                  (st1, out1) =
                    (if sockets st participantId \<noteq> None
                     then (socket_leave participantId roomId st,
                           [(ToSocket participantId, Participant_kicked ''Removed by room leader'')])
                     else (st, []));
                  (rs, updatedRoom) = removeParticipant (rooms st1) roomId participantId;
                  out2 = (case updatedRoom of
                            None \<Rightarrow> []
                          | Some ur \<Rightarrow>
                              [(ToRoomExcept roomId sid,
                                Participant_left participantId (participants ur) (leaderId ur)
                                  (Some (''kicked'', participantName))),
                               (ToRoomExcept roomId sid,
                                Participant_kicked_notification participantId participantName ''leader'')])
              in (st1\<lparr> rooms := rs \<rparr>, out1 @ out2))))"

text \<open>\<open>now\<close> and \<open>now2\<close> are the two readings of the clock, in the order of the source.\<close>

definition create_share_token ::
  "server_state \<Rightarrow> socket_id \<Rightarrow> room_id \<Rightarrow> string \<Rightarrow> real \<Rightarrow> real \<Rightarrow> server_state \<times> emission list" where
  "create_share_token st sid roomId shareToken now now2 =
     (case getRoom (rooms st) roomId of
        None \<Rightarrow> (st, [])
      | Some r \<Rightarrow>
          (if leaderId r \<noteq> Some sid then (st, [])
           else
             (let toks = (case shareTokens r of None \<Rightarrow> Map.empty | Some m \<Rightarrow> m)
              in (st\<lparr> rooms := (rooms st)(roomId \<mapsto> r\<lparr> shareTokens := Some (toks(shareToken \<mapsto>
                         \<lparr> createdAt = now, createdBy = sid,
                           expiresAt = now2 + (24 * 60 * 60 * 1000) \<rparr>)) \<rparr>) \<rparr>, []))))"

definition approve_participant :: "server_state \<Rightarrow> socket_id \<Rightarrow> room_id \<Rightarrow> req_id \<Rightarrow> server_state \<times> emission list" where
  "approve_participant st sid roomId requestId =
     (case getRoom (rooms st) roomId of
        None \<Rightarrow> (st, [])
      | Some r \<Rightarrow>
          (if leaderId r \<noteq> Some sid then (st, [])
           else (case pendingRequests r of
                   None \<Rightarrow> (st, [])
                 | Some pr \<Rightarrow>
                     (case pr requestId of
                        None \<Rightarrow> (st, [])
                      | Some req \<Rightarrow>
                          (if (case sockets st (socketId req) of
                                 None \<Rightarrow> True | Some k \<Rightarrow> \<not> joinCallback k)
                           then (st\<lparr> rooms := (rooms st)(roomId \<mapsto>
                                      r\<lparr> pendingRequests := Some (pr(requestId := None)) \<rparr>) \<rparr>, [])
                           else
                             (let st1 = socket_join (socketId req) roomId st;
                                  (rs, r1) = addParticipant (rooms st1) roomId (socketId req) (reqName req);
                                  r2 = r1\<lparr> pendingRequests :=
                                            map_option (\<lambda>p. p(requestId := None)) (pendingRequests r1) \<rparr>;
                                  st2 = map_sock (socketId req) clear_pending
                                          (st1\<lparr> rooms := rs(roomId \<mapsto> r2) \<rparr>)
                              in (st2,
                                  [(Ack (socketId req),
                                    Join_ack (socketId req) False (mediaKind r1) (mediaRef r1)
                                      (isPlaying r1) (leaderMediaTime r1) (leaderServerTs r1)),
                                   (ToRoomExcept roomId (socketId req),
                                    Participant_joined (socketId req) (reqName req) (participants r1))])))))))"

definition rejected_msg :: string where
  "rejected_msg = ''Join request was rejected by the room leader''"

definition reject_participant :: "server_state \<Rightarrow> socket_id \<Rightarrow> room_id \<Rightarrow> req_id \<Rightarrow> server_state \<times> emission list" where
  "reject_participant st sid roomId requestId =
     (case getRoom (rooms st) roomId of
        None \<Rightarrow> (st, [])
      | Some r \<Rightarrow>
          (if leaderId r \<noteq> Some sid then (st, [])
           else (case pendingRequests r of
                   None \<Rightarrow> (st, [])
                 | Some pr \<Rightarrow>
                     (case pr requestId of
                        None \<Rightarrow> (st, [])
                      | Some req \<Rightarrow>
                          (let (st1, out) =
                                 (if (case sockets st (socketId req) of
                                        None \<Rightarrow> False | Some k \<Rightarrow> joinCallback k)
                                  then (map_sock (socketId req) clear_pending st,
                                        [(Ack (socketId req), Join_error rejected_msg)])
                                  else (st, []))
                           in (st1\<lparr> rooms := (rooms st1)(roomId \<mapsto>
                                     r\<lparr> pendingRequests := Some (pr(requestId := None)) \<rparr>) \<rparr>, out))))))"

text \<open>
  \<^verbatim>\<open>leader_leave_room\<close>: after the notice and \<^verbatim>\<open>deleteRoom\<close>, every socket in the
  transport room leaves it.
\<close>

definition leader_leave_room :: "server_state \<Rightarrow> socket_id \<Rightarrow> room_id \<Rightarrow> server_state \<times> emission list" where
  "leader_leave_room st sid roomId =
     (case getRoom (rooms st) roomId of
        None \<Rightarrow> (st, [])
      | Some r \<Rightarrow>
          (if leaderId r \<noteq> Some sid then (st, [])
           else (st\<lparr> rooms := deleteRoom (rooms st) roomId,
                     sockets := (\<lambda>x. map_option (\<lambda>k. k\<lparr> joined := joined k - {roomId} \<rparr>)
                                        (sockets st x)) \<rparr>,
                 [(ToRoom roomId, Room_closed ''Leader left the room'')])))"

definition snapshot_request :: "server_state \<Rightarrow> socket_id \<Rightarrow> room_id \<Rightarrow> server_state \<times> emission list" where
  "snapshot_request st sid roomId =
     (case getRoom (rooms st) roomId of
        None \<Rightarrow> (st, [])
      | Some r \<Rightarrow>
          (st, [(ToSocket sid,
                 Snapshot_response (mediaKind r) (mediaRef r) (isPlaying r) (leaderMediaTime r)
                   (leaderServerTs r) (leaderId r) (participants r))]))"

subsection \<open>disconnect\<close>

text \<open>
  The body of \<^verbatim>\<open>rooms.forEach\<close> for one element of \<^verbatim>\<open>socket.rooms\<close>.
\<close>

definition disconnect_room :: "registry \<Rightarrow> socket_id \<Rightarrow> room_id \<Rightarrow> registry \<times> emission list" where
  "disconnect_room rs sid roomId =
     (if roomId \<noteq> sid then
        (let wasLeader = (case getRoom rs roomId of None \<Rightarrow> False | Some r \<Rightarrow> leaderId r = Some sid);
             (rs1, updatedRoom) = removeParticipant rs roomId sid
         in (case updatedRoom of
               None \<Rightarrow>
                 (rs1, if wasLeader
                       then [(ToRoomExcept roomId sid, Room_closed ''Leader left the room'')]
                       else [])
             | Some ur \<Rightarrow>
                 (rs1, (ToRoomExcept roomId sid,
                        Participant_left sid (participants ur) (leaderId ur) None)
                       # (if truthy (leaderId ur) \<and> leaderId ur \<noteq> Some sid
                          then [(ToRoomExcept roomId sid,
                                 Leader_changed (the (leaderId ur)) (participants ur))]
                          else []))))
      else (rs, []))"

text \<open>
  The disconnect handler. \<open>socketRooms\<close> is what \<^verbatim>\<open>socket.rooms\<close> holds when the
  transport calls the handler, in iteration order; it is the transport's to decide, so it
  is a parameter. socket.io fires \<^verbatim>\<open>disconnect\<close> after the socket has left all its rooms,
  so with that transport the list is empty.
\<close>

fun disconnect_rooms :: "registry \<Rightarrow> socket_id \<Rightarrow> room_id list \<Rightarrow> registry \<times> emission list" where
  "disconnect_rooms rs sid [] = (rs, [])"
| "disconnect_rooms rs sid (roomId # rest) =
     (let (rs1, out1) = disconnect_room rs sid roomId;
          (rs2, out2) = disconnect_rooms rs1 sid rest
      in (rs2, out1 @ out2))"

definition disconnect :: "server_state \<Rightarrow> socket_id \<Rightarrow> room_id list \<Rightarrow> server_state \<times> emission list" where
  "disconnect st sid socketRooms =
     (let (rs, out) = disconnect_rooms (rooms st) sid socketRooms
      in (st\<lparr> rooms := rs \<rparr>, out))"

subsection \<open>The server as a transition system\<close>

text \<open>
  One event is one call of the transport into the server. The transport gives every
  connection a fresh, non-empty id and keeps it in \<^verbatim>\<open>io.sockets.sockets\<close> until the
  connection closes; handlers run only for connected sockets, since they are registered
  per connection.
\<close>

datatype event =
    Connect socket_id
  | JoinRoom socket_id room_id string "string option" real real
  | LeaderState socket_id room_id real bool "string option" "string option" real
  | Control socket_id room_id string "real option" real
  | MediaCleared socket_id room_id real
  | PromoteLeader socket_id room_id socket_id
  | KickParticipant socket_id room_id socket_id
  | CreateShareToken socket_id room_id string real real
  | ApproveParticipant socket_id room_id req_id
  | RejectParticipant socket_id room_id req_id
  | LeaderLeaveRoom socket_id room_id
  | SnapshotRequest socket_id room_id
  | Disconnect socket_id "room_id list"

fun sender :: "event \<Rightarrow> socket_id" where
  "sender (Connect s) = s"
| "sender (JoinRoom s _ _ _ _ _) = s"
| "sender (LeaderState s _ _ _ _ _ _) = s"
| "sender (Control s _ _ _ _) = s"
| "sender (MediaCleared s _ _) = s"
| "sender (PromoteLeader s _ _) = s"
| "sender (KickParticipant s _ _) = s"
| "sender (CreateShareToken s _ _ _ _) = s"
| "sender (ApproveParticipant s _ _) = s"
| "sender (RejectParticipant s _ _) = s"
| "sender (LeaderLeaveRoom s _) = s"
| "sender (SnapshotRequest s _) = s"
| "sender (Disconnect s _) = s"

text \<open>
  \<open>handle\<close> calls the handler of the event. For \<open>Disconnect\<close> the transport also drops
  the socket from \<^verbatim>\<open>io.sockets.sockets\<close>, and with it the properties stored on it; the
  handler itself does not read that map.
\<close>

fun handle :: "server_state \<Rightarrow> event \<Rightarrow> server_state \<times> emission list" where
  "handle st (Connect s) = (st, [])"
| "handle st (JoinRoom s r nm tok now now2) = join_room st s r nm tok now now2"
| "handle st (LeaderState s r t p mk mr now) = leader_state st s r t p mk mr now"
| "handle st (Control s r ty toTime now) = control st s r ty toTime now"
| "handle st (MediaCleared s r now) = media_cleared st s r now"
| "handle st (PromoteLeader s r p) = promote_leader st s r p"
| "handle st (KickParticipant s r p) = kick_participant st s r p"
| "handle st (CreateShareToken s r tok now now2) = create_share_token st s r tok now now2"
| "handle st (ApproveParticipant s r q) = approve_participant st s r q"
| "handle st (RejectParticipant s r q) = reject_participant st s r q"
| "handle st (LeaderLeaveRoom s r) = leader_leave_room st s r"
| "handle st (SnapshotRequest s r) = snapshot_request st s r"
| "handle st (Disconnect s socketRooms) =
     (let (st1, out) = disconnect st s socketRooms
      in (st1\<lparr> sockets := (sockets st1)(s := None) \<rparr>, out))"

definition step :: "server_state \<Rightarrow> event \<Rightarrow> server_state \<times> emission list" where
  "step st ev =
     (case ev of
        Connect s \<Rightarrow>
          (if s = [] \<or> sockets st s \<noteq> None then (st, [])
           else (st\<lparr> sockets := (sockets st)(s \<mapsto> newSock) \<rparr>, []))
      | _ \<Rightarrow> (if sockets st (sender ev) = None then (st, []) else handle st ev))"

definition run :: "event list \<Rightarrow> server_state" where
  "run evs = foldl (\<lambda>st ev. fst (step st ev)) initialServer evs"

section \<open>The client store and the follower loop\<close>

text \<open>
  The \<^verbatim>\<open>RoomState\<close> of the client store (socket.ts); its fields carry the prefix \<open>c_\<close>
  where the server's room has a field of the same name.
\<close>

record RoomState =
  c_roomId :: "room_id option"
  c_participantId :: "socket_id option"
  c_participants :: "socket_id \<rightharpoonup> string"
  c_leaderId :: "socket_id option"
  isLeader :: bool
  c_mediaKind :: "string option"
  c_mediaRef :: "string option"
  c_isPlaying :: bool
  currentTime :: real

record store =
  room :: RoomState
  syncEngine :: SyncState

text \<open>
  The handler of \<^verbatim>\<open>control_update\<close> in the store; \<open>now\<close> is the clock reading inside
  \<^verbatim>\<open>calculateCurrentMediaTime\<close>.
\<close>

definition on_control_update ::
  "store \<Rightarrow> string \<Rightarrow> real option \<Rightarrow> real \<Rightarrow> real \<Rightarrow> bool \<Rightarrow> real \<Rightarrow> store" where
  "on_control_update s ty toTime lmt lts playing now =
     (case (if ty = ''SEEK'' then toTime else None) of
        Some t \<Rightarrow>
          s\<lparr> syncEngine := resetDriftHistory (syncEngine s),
             room := (room s)\<lparr> c_isPlaying := playing, currentTime := t \<rparr> \<rparr>
      | None \<Rightarrow>
          s\<lparr> room := (room s)\<lparr> c_isPlaying := playing,
                 currentTime := calculateCurrentMediaTime (syncEngine s) lmt lts playing now \<rparr> \<rparr>)"

text \<open>
  The effect "Sync follower player with leader state" of SyncStreamApp.tsx. \<open>ready\<close>
  stands for \<^verbatim>\<open>playerRef.current && isPlayerReady\<close>, \<open>playerState\<close> and \<open>actualTime\<close> are
  what the player reports, \<open>now\<close> is the clock reading passed as the leader timestamp and
  \<open>now2\<close> the one taken inside \<^verbatim>\<open>calculateCurrentMediaTime\<close>. The result lists the
  calls made on the player, in order.
\<close>

datatype player_call = Play | Pause | SeekTo real

definition follower_sync ::
  "store \<Rightarrow> bool \<Rightarrow> int \<Rightarrow> real \<Rightarrow> real \<Rightarrow> real \<Rightarrow> store \<times> player_call list" where
  "follower_sync s ready playerState actualTime now now2 =
     (if \<not> isLeader (room s) \<and> ready \<and> truthy (c_mediaKind (room s)) \<and> truthy (c_mediaRef (room s))
      then
        (let isActuallyPlaying = (playerState = 1);
             expectedTime = calculateCurrentMediaTime (syncEngine s) (currentTime (room s)) now
                              (c_isPlaying (room s)) now2;
             calls1 = (if c_isPlaying (room s) \<and> \<not> isActuallyPlaying \<and> playerState \<noteq> 3 then [Play]
                       else if \<not> c_isPlaying (room s) \<and> isActuallyPlaying then [Pause]
                       else [])
         in if c_isPlaying (room s) \<and> isActuallyPlaying then
              (let timeDrift = \<bar>expectedTime - actualTime\<bar>
               in if timeDrift > 0.5
                  then (s\<lparr> syncEngine := resetDriftHistory (syncEngine s) \<rparr>,
                        calls1 @ [SeekTo expectedTime])
                  else (s, calls1))
            else (s, calls1))
      else (s, []))"

section \<open>Well-formed server states\<close>

text \<open>
  The property every reachable state of the server has: no socket and no participant has
  the empty id, and every room in the registry has a participant and a truthy
  \<open>leaderId\<close>.
\<close>

definition room_ok :: "room \<Rightarrow> bool" where
  "room_ok r = (participants r [] = None \<and> dom (participants r) \<noteq> {} \<and> truthy (leaderId r))"

definition reg_ok :: "registry \<Rightarrow> bool" where
  "reg_ok rs = (\<forall>roomId r. rs roomId = Some r \<longrightarrow> room_ok r)"

definition server_ok :: "server_state \<Rightarrow> bool" where
  "server_ok st = (sockets st [] = None \<and> reg_ok (rooms st))"

section \<open>A worked scenario\<close>

text \<open>
  The scenario of the specification: the leader \<open>L\<close> creates room \<open>R1\<close>, the
  participant \<open>P\<close> asks to join and \<open>L\<close> approves. \<open>scenario_pending\<close> stops before
  the approval. \<open>scenario_state\<close> and \<open>pending_state\<close> are the states these runs
  reach; \<open>token_state\<close> is \<open>scenario_state\<close> after \<open>L\<close> has created the share token
  \<open>tok\<close> at time 5. \<open>scenario_follower\<close> is the store of the follower \<open>P\<close>, playing
  at position 10. In \<open>scenario_promote\<close> the leader \<open>L\<close>, alone in \<open>R1\<close>, sends
  \<^verbatim>\<open>promote_leader\<close> with the participant id \<^verbatim>\<open>toString\<close>; \<open>promoted_room\<close> is the room
  this leaves.
\<close>

definition scenario :: "event list" where
  "scenario = [Connect ''L'', JoinRoom ''L'' ''R1'' ''Lea'' None 1 1,
               Connect ''P'', JoinRoom ''P'' ''R1'' ''Pat'' None 2 2,
               ApproveParticipant ''L'' ''R1'' (''P'', 2)]"

definition scenario_pending :: "event list" where
  "scenario_pending = [Connect ''L'', JoinRoom ''L'' ''R1'' ''Lea'' None 1 1,
                       Connect ''P'', JoinRoom ''P'' ''R1'' ''Pat'' None 2 2]"

definition scenario_room :: room where
  "scenario_room = \<lparr> leaderId = Some ''L'', mediaKind = None, mediaRef = None, isPlaying = False,
               leaderMediaTime = 0, leaderServerTs = 0,
               participants = [''L'' \<mapsto> ''Lea'', ''P'' \<mapsto> ''Pat''],
               pendingRequests = Some Map.empty, shareTokens = None \<rparr>"

definition scenario_sock :: sock where
  "scenario_sock = \<lparr> joinCallback = False, pendingRoomId = None, pendingName = None, joined = {''R1''} \<rparr>"

definition scenario_state :: server_state where
  "scenario_state = \<lparr> rooms = [''R1'' \<mapsto> scenario_room],
                       sockets = [''L'' \<mapsto> scenario_sock, ''P'' \<mapsto> scenario_sock] \<rparr>"

definition pending_room :: room where
  "pending_room = \<lparr> leaderId = Some ''L'', mediaKind = None, mediaRef = None, isPlaying = False,
               leaderMediaTime = 0, leaderServerTs = 0,
               participants = [''L'' \<mapsto> ''Lea''],
               pendingRequests = Some [(''P'', 2) \<mapsto> \<lparr> socketId = ''P'', reqName = ''Pat'', timestamp = 2 \<rparr>],
               shareTokens = None \<rparr>"

definition pending_state :: server_state where
  "pending_state = \<lparr> rooms = [''R1'' \<mapsto> pending_room],
       sockets = [''L'' \<mapsto> scenario_sock,
                  ''P'' \<mapsto> \<lparr> joinCallback = True, pendingRoomId = Some ''R1'',
                               pendingName = Some ''Pat'', joined = {} \<rparr>] \<rparr>"

definition scenario_token :: token where
  "scenario_token = \<lparr> createdAt = 5, createdBy = ''L'', expiresAt = 86400005 \<rparr>"

definition token_room :: room where
  "token_room = scenario_room\<lparr> shareTokens := Some [''tok'' \<mapsto> scenario_token] \<rparr>"

definition token_state :: server_state where
  "token_state = scenario_state\<lparr> rooms := [''R1'' \<mapsto> token_room] \<rparr>"

definition scenario_promote :: "event list" where
  "scenario_promote = [Connect ''L'', JoinRoom ''L'' ''R1'' ''Lea'' None 1 1,
                       PromoteLeader ''L'' ''R1'' ''toString'']"

definition promoted_room :: room where
  "promoted_room = \<lparr> leaderId = Some ''toString'', mediaKind = None, mediaRef = None,
               isPlaying = False, leaderMediaTime = 0, leaderServerTs = 0,
               participants = [''L'' \<mapsto> ''Lea''],
               pendingRequests = None, shareTokens = None \<rparr>"

definition scenario_follower :: store where
  "scenario_follower =
     \<lparr> room = \<lparr> c_roomId = Some ''R1'', c_participantId = Some ''P'',
                c_participants = [''L'' \<mapsto> ''Lea'', ''P'' \<mapsto> ''Pat''], c_leaderId = Some ''L'',
                isLeader = False, c_mediaKind = Some ''youtube'', c_mediaRef = Some ''abc'',
                c_isPlaying = True, currentTime = 10 \<rparr>,
       syncEngine = initialSyncState\<lparr> driftHistory := [0.2] \<rparr> \<rparr>"

section \<open>Reachable states are well formed\<close>

lemma room_ok_fields [simp]:
  "room_ok (r\<lparr> mediaKind := a \<rparr>) = room_ok r"
  "room_ok (r\<lparr> mediaRef := b \<rparr>) = room_ok r"
  "room_ok (r\<lparr> isPlaying := c \<rparr>) = room_ok r"
  "room_ok (r\<lparr> leaderMediaTime := d \<rparr>) = room_ok r"
  "room_ok (r\<lparr> leaderServerTs := e \<rparr>) = room_ok r"
  "room_ok (r\<lparr> pendingRequests := f \<rparr>) = room_ok r"
  "room_ok (r\<lparr> shareTokens := g \<rparr>) = room_ok r"
  by (simp_all add: room_ok_def)

lemma room_ok_leader: "room_ok r \<Longrightarrow> truthy (leaderId r)"
  by (simp add: room_ok_def)

lemma inherited_nonempty: "p \<in> set object_prototype_names \<Longrightarrow> p \<noteq> []"
  by (auto simp: object_prototype_names_def)

lemma reg_ok_upd: "reg_ok rs \<Longrightarrow> room_ok r \<Longrightarrow> reg_ok (rs(k \<mapsto> r))"
  by (simp add: reg_ok_def)

lemma reg_ok_del: "reg_ok rs \<Longrightarrow> reg_ok (rs(k := None))"
  by (simp add: reg_ok_def)

lemma reg_okD: "reg_ok rs \<Longrightarrow> rs k = Some r \<Longrightarrow> room_ok r"
  by (simp add: reg_ok_def)

lemma server_ok_roomD: "server_ok st \<Longrightarrow> rooms st k = Some r \<Longrightarrow> room_ok r"
  by (auto simp: server_ok_def dest: reg_okD)

lemma addParticipant_ok:
  assumes "reg_ok rs" and "sid \<noteq> []"
  shows "reg_ok (fst (addParticipant rs k sid nm))"
proof (cases "rs k")
  case None
  have "room_ok (newRoom\<lparr> participants := (participants newRoom)(sid \<mapsto> nm), leaderId := Some sid \<rparr>)"
    using assms(2) by (simp add: room_ok_def newRoom_def)
  with None assms(1) show ?thesis
    by (simp add: addParticipant_def createRoom_def Let_def newRoom_def reg_ok_upd)
next
  case (Some r)
  with assms(1) have ok: "room_ok r" by (rule reg_okD)
  then have "room_ok (r\<lparr> participants := (participants r)(sid \<mapsto> nm) \<rparr>)"
    using assms(2) by (simp add: room_ok_def)
  moreover from ok have "truthy (leaderId r)" by (rule room_ok_leader)
  ultimately show ?thesis using Some assms(1)
    by (simp add: addParticipant_def createRoom_def Let_def reg_ok_upd)
qed

lemma removeParticipant_ok:
  assumes "reg_ok rs"
  shows "reg_ok (fst (removeParticipant rs k sid))"
proof (cases "rs k")
  case None
  with assms show ?thesis by (simp add: removeParticipant_def getRoom_def)
next
  case (Some r)
  with assms have ok: "room_ok r" by (rule reg_okD)
  show ?thesis
  proof (cases "leaderId r = Some sid \<or> dom ((participants r)(sid := None)) = {}")
    case True
    then have "fst (removeParticipant rs k sid) = rs(k := None)"
      using Some unfolding removeParticipant_def getRoom_def deleteRoom_def Let_def
      by (elim disjE) (simp_all del: dom_fun_upd)
    then show ?thesis using assms by (simp add: reg_ok_del)
  next
    case False
    then have eq: "fst (removeParticipant rs k sid) =
                     rs(k \<mapsto> r\<lparr> participants := (participants r)(sid := None) \<rparr>)"
      using Some unfolding removeParticipant_def getRoom_def deleteRoom_def Let_def
      by (simp del: dom_fun_upd)
    from False have ne: "dom ((participants r)(sid := None)) \<noteq> {}" by blast
    from ok have "participants r [] = None" and "truthy (leaderId r)"
      by (simp_all add: room_ok_def)
    with ne have "room_ok (r\<lparr> participants := (participants r)(sid := None) \<rparr>)"
      by (simp add: room_ok_def del: dom_fun_upd)
    with assms show ?thesis unfolding eq by (rule reg_ok_upd)
  qed
qed

lemma promoteLeader_ok:
  assumes "reg_ok rs"
  shows "reg_ok (fst (promoteLeader rs k p))"
proof (cases "rs k")
  case None
  with assms show ?thesis by (simp add: promoteLeader_def getRoom_def)
next
  case (Some r)
  with assms have ok: "room_ok r" by (rule reg_okD)
  have "room_ok (r\<lparr> leaderId := Some p \<rparr>)" if "has_property (participants r) p"
  proof -
    from that have "p \<noteq> []"
      using ok inherited_nonempty [of p] by (auto simp: has_property_def room_ok_def)
    with ok show ?thesis by (simp add: room_ok_def)
  qed
  with Some assms show ?thesis
    by (simp add: promoteLeader_def getRoom_def Let_def reg_ok_upd)
qed

lemma disconnect_room_ok: "reg_ok rs \<Longrightarrow> reg_ok (fst (disconnect_room rs sid k))"
  using removeParticipant_ok [of rs k sid]
  by (simp add: disconnect_room_def Let_def split_beta split: option.splits)

lemma disconnect_rooms_ok: "reg_ok rs \<Longrightarrow> reg_ok (fst (disconnect_rooms rs sid ks))"
proof (induction ks arbitrary: rs)
  case Nil
  then show ?case by simp
next
  case (Cons k ks)
  from Cons.prems have "reg_ok (fst (disconnect_room rs sid k))" by (rule disconnect_room_ok)
  then have "reg_ok (fst (disconnect_rooms (fst (disconnect_room rs sid k)) sid ks))"
    by (rule Cons.IH)
  then show ?case by (simp add: split_beta)
qed

lemma map_sock_rooms [simp]: "rooms (map_sock sid f st) = rooms st"
  by (simp add: map_sock_def split: option.splits)

lemma socket_join_rooms [simp]: "rooms (socket_join sid k st) = rooms st"
  by (simp add: socket_join_def)

lemma socket_leave_rooms [simp]: "rooms (socket_leave sid k st) = rooms st"
  by (simp add: socket_leave_def)

lemma map_sock_empty: "sockets st [] = None \<Longrightarrow> sockets (map_sock sid f st) [] = None"
  by (auto simp: map_sock_def split: option.splits)

lemma map_sock_ok: "server_ok st \<Longrightarrow> server_ok (map_sock sid f st)"
  by (simp add: server_ok_def map_sock_empty)

lemma server_ok_rooms: "server_ok st \<Longrightarrow> reg_ok rs \<Longrightarrow> server_ok (st\<lparr> rooms := rs \<rparr>)"
  by (simp add: server_ok_def)

lemma server_ok_room_upd:
  "server_ok st \<Longrightarrow> room_ok r \<Longrightarrow> server_ok (st\<lparr> rooms := (rooms st)(k \<mapsto> r) \<rparr>)"
  by (simp add: server_ok_def reg_ok_upd)

lemma connected_nonempty: "server_ok st \<Longrightarrow> sockets st sid \<noteq> None \<Longrightarrow> sid \<noteq> []"
  by (auto simp: server_ok_def)

lemma admit_ok:
  assumes "server_ok st" and "sid \<noteq> []"
  shows "server_ok (fst (admit st sid k nm b))"
proof -
  have "server_ok (socket_join sid k st)"
    using assms(1) unfolding socket_join_def by (rule map_sock_ok)
  moreover have "reg_ok (fst (addParticipant (rooms st) k sid nm))"
    using assms by (simp add: addParticipant_ok server_ok_def)
  ultimately show ?thesis
    by (simp add: admit_def Let_def split_beta server_ok_rooms)
qed

lemma join_room_ok:
  assumes "server_ok st" and "sid \<noteq> []"
  shows "server_ok (fst (join_room st sid k nm tok now now2))"
proof (cases "rooms st k")
  case None
  then show ?thesis using assms by (simp add: join_room_def getRoom_def admit_ok)
next
  case (Some r)
  with assms(1) have ok: "room_ok r" by (rule server_ok_roomD)
  have a: "server_ok (st\<lparr> rooms := (rooms st)(k \<mapsto> r\<lparr> shareTokens := x \<rparr>) \<rparr>)" for x
    using assms(1) ok by (simp add: server_ok_room_upd)
  have b: "server_ok (map_sock sid f (st\<lparr> rooms := (rooms st)(k \<mapsto> r\<lparr> pendingRequests := x \<rparr>) \<rparr>))" for x f
    using assms(1) ok by (simp add: map_sock_ok server_ok_room_upd)
  show ?thesis using Some assms a b
    by (simp add: join_room_def getRoom_def admit_ok Let_def split_beta split: option.splits)
qed

lemma leader_state_ok:
  assumes "server_ok st"
  shows "server_ok (fst (leader_state st sid k t p mk mr now))"
proof (cases "rooms st k")
  case None
  then show ?thesis using assms by (simp add: leader_state_def getRoom_def)
next
  case (Some r)
  with assms have "room_ok r" by (rule server_ok_roomD)
  with Some assms show ?thesis
    by (simp add: leader_state_def getRoom_def Let_def server_ok_room_upd split: option.splits)
qed

lemma control_ok:
  assumes "server_ok st"
  shows "server_ok (fst (control st sid k ty toTime now))"
proof (cases "rooms st k")
  case None
  then show ?thesis using assms by (simp add: control_def getRoom_def)
next
  case (Some r)
  with assms have "room_ok r" by (rule server_ok_roomD)
  with Some assms show ?thesis
    by (simp add: control_def getRoom_def Let_def server_ok_room_upd split: option.splits)
qed

lemma media_cleared_ok:
  assumes "server_ok st"
  shows "server_ok (fst (media_cleared st sid k now))"
proof (cases "rooms st k")
  case None
  then show ?thesis using assms by (simp add: media_cleared_def getRoom_def)
next
  case (Some r)
  with assms have "room_ok r" by (rule server_ok_roomD)
  with Some assms show ?thesis
    by (simp add: media_cleared_def getRoom_def Let_def server_ok_room_upd split: option.splits)
qed

lemma promote_leader_ok: "server_ok st \<Longrightarrow> server_ok (fst (promote_leader st sid k p))"
  using promoteLeader_ok [of "rooms st" k p]
  by (cases "promoteLeader (rooms st) k p")
     (auto simp: promote_leader_def getRoom_def server_ok_def split: option.splits)

lemma socket_leave_ok: "server_ok st \<Longrightarrow> server_ok (socket_leave sid k st)"
  unfolding socket_leave_def by (rule map_sock_ok)

lemma kick_participant_ok:
  assumes "server_ok st"
  shows "server_ok (fst (kick_participant st sid k p))"
proof -
  have a: "server_ok (st1\<lparr> rooms := fst (removeParticipant (rooms st1) k p) \<rparr>)"
    if "server_ok st1" for st1
    using that by (simp add: server_ok_def removeParticipant_ok)
  have b: "server_ok (socket_leave p k st)" using assms by (rule socket_leave_ok)
  show ?thesis using assms a [OF assms] a [OF b]
    by (simp add: kick_participant_def getRoom_def Let_def split_beta split: option.splits)
qed

lemma create_share_token_ok:
  assumes "server_ok st"
  shows "server_ok (fst (create_share_token st sid k tok now now2))"
proof (cases "rooms st k")
  case None
  then show ?thesis using assms by (simp add: create_share_token_def getRoom_def)
next
  case (Some r)
  with assms have "room_ok r" by (rule server_ok_roomD)
  with Some assms show ?thesis
    by (simp add: create_share_token_def getRoom_def Let_def server_ok_room_upd split: option.splits)
qed

lemma approve_participant_ok:
  assumes "server_ok st"
  shows "server_ok (fst (approve_participant st sid k q))"
proof (cases "rooms st k")
  case None
  then show ?thesis using assms by (simp add: approve_participant_def getRoom_def)
next
  case (Some r)
  with assms have ok: "room_ok r" by (rule server_ok_roomD)
  have a: "server_ok (st\<lparr> rooms := (rooms st)(k \<mapsto> r\<lparr> pendingRequests := x \<rparr>) \<rparr>)" for x
    using assms ok by (simp add: server_ok_room_upd)
  have b: "server_ok (map_sock x clear_pending
             ((socket_join x k st)\<lparr> rooms := (fst (addParticipant (rooms st) k x nm))(k \<mapsto>
                 (snd (addParticipant (rooms st) k x nm))\<lparr> pendingRequests := y \<rparr>) \<rparr>))"
    if "sockets st x \<noteq> None" for x nm y
  proof -
    from assms that have ne: "x \<noteq> []" by (rule connected_nonempty)
    have r1: "reg_ok (fst (addParticipant (rooms st) k x nm))"
      using assms ne by (simp add: addParticipant_ok server_ok_def)
    have "fst (addParticipant (rooms st) k x nm) k = Some (snd (addParticipant (rooms st) k x nm))"
      by (simp add: addParticipant_def Let_def split_beta)
    with r1 have "room_ok (snd (addParticipant (rooms st) k x nm))" by (rule reg_okD)
    then have "room_ok ((snd (addParticipant (rooms st) k x nm))\<lparr> pendingRequests := y \<rparr>)"
      by simp
    with r1 have "reg_ok ((fst (addParticipant (rooms st) k x nm))(k \<mapsto>
                 (snd (addParticipant (rooms st) k x nm))\<lparr> pendingRequests := y \<rparr>))"
      by (rule reg_ok_upd)
    moreover have "server_ok (socket_join x k st)"
      using assms unfolding socket_join_def by (rule map_sock_ok)
    ultimately show ?thesis by (simp add: map_sock_ok server_ok_rooms)
  qed
  show ?thesis using Some assms a b
    by (simp add: approve_participant_def getRoom_def Let_def split_beta split: option.splits)
qed

lemma reject_participant_ok:
  assumes "server_ok st"
  shows "server_ok (fst (reject_participant st sid k q))"
proof (cases "rooms st k")
  case None
  then show ?thesis using assms by (simp add: reject_participant_def getRoom_def)
next
  case (Some r)
  with assms have ok: "room_ok r" by (rule server_ok_roomD)
  have a: "server_ok (st1\<lparr> rooms := (rooms st1)(k \<mapsto> r\<lparr> pendingRequests := x \<rparr>) \<rparr>)"
    if "server_ok st1" for x st1
    using that ok by (simp add: server_ok_room_upd)
  show ?thesis using Some assms a [OF assms] a [OF map_sock_ok [OF assms]]
    by (simp add: reject_participant_def getRoom_def Let_def split_beta split: option.splits)
qed

lemma leader_leave_room_ok: "server_ok st \<Longrightarrow> server_ok (fst (leader_leave_room st sid k))"
  by (auto simp: leader_leave_room_def getRoom_def deleteRoom_def server_ok_def reg_ok_del
           split: option.splits)

lemma snapshot_request_ok: "server_ok st \<Longrightarrow> server_ok (fst (snapshot_request st sid k))"
  by (auto simp: snapshot_request_def split: option.splits)

lemma disconnect_ok: "server_ok st \<Longrightarrow> server_ok (fst (disconnect st sid ks))"
  using disconnect_rooms_ok [of "rooms st" sid ks]
  by (simp add: disconnect_def server_ok_def split_beta)

lemma handle_ok:
  assumes "server_ok st" and "sockets st (sender ev) \<noteq> None"
  shows "server_ok (fst (handle st ev))"
proof -
  from assms have ne: "sender ev \<noteq> []" by (rule connected_nonempty)
  show ?thesis
  proof (cases ev)
    case (Disconnect s ks)
    have "server_ok (fst (disconnect st s ks))" using assms(1) by (rule disconnect_ok)
    then show ?thesis using Disconnect
      by (simp add: server_ok_def split_beta)
  qed (use assms(1) ne in \<open>simp_all add: join_room_ok leader_state_ok control_ok media_cleared_ok
         promote_leader_ok kick_participant_ok create_share_token_ok approve_participant_ok
         reject_participant_ok leader_leave_room_ok snapshot_request_ok\<close>)
qed

lemma step_ok:
  assumes "server_ok st"
  shows "server_ok (fst (step st ev))"
proof (cases "\<exists>s. ev = Connect s")
  case True
  then show ?thesis using assms by (auto simp: step_def server_ok_def)
next
  case False
  then have eq: "step st ev = (if sockets st (sender ev) = None then (st, []) else handle st ev)"
    by (cases ev) (simp_all add: step_def)
  show ?thesis
  proof (cases "sockets st (sender ev) = None")
    case True
    with eq assms show ?thesis by simp
  next
    case False
    with assms have "server_ok (fst (handle st ev))" by (rule handle_ok)
    with eq False show ?thesis by simp
  qed
qed

lemma foldl_step_ok: "server_ok st \<Longrightarrow> server_ok (foldl (\<lambda>st ev. fst (step st ev)) st evs)"
  by (induction evs arbitrary: st) (simp_all add: step_ok)

lemma run_ok: "server_ok (run evs)"
  unfolding run_def by (rule foldl_step_ok) (simp add: server_ok_def reg_ok_def initialServer_def)

subsection \<open>The scenario runs\<close>

lemma run_scenario: "run scenario = scenario_state"
  by (simp add: run_def scenario_def scenario_state_def scenario_room_def scenario_sock_def
        step_def initialServer_def newSock_def join_room_def getRoom_def admit_def socket_join_def
        map_sock_def addParticipant_def createRoom_def newRoom_def find_token_def
        approve_participant_def clear_pending_def Let_def fun_upd_twist)

lemma run_scenario_pending: "run scenario_pending = pending_state"
  by (simp add: run_def scenario_pending_def pending_state_def pending_room_def scenario_sock_def
        step_def initialServer_def newSock_def join_room_def getRoom_def admit_def socket_join_def
        map_sock_def addParticipant_def createRoom_def newRoom_def find_token_def Let_def fun_upd_twist)

lemma run_scenario_token:
  "run (scenario @ [CreateShareToken ''L'' ''R1'' ''tok'' 5 5]) = token_state"
proof -
  have "run (scenario @ [CreateShareToken ''L'' ''R1'' ''tok'' 5 5])
          = fst (step (run scenario) (CreateShareToken ''L'' ''R1'' ''tok'' 5 5))"
    by (simp add: run_def)
  then show ?thesis
    by (simp add: run_scenario)
       (simp add: scenario_state_def scenario_room_def token_state_def token_room_def
          scenario_token_def step_def create_share_token_def getRoom_def)
qed

section \<open>The claims\<close>

subsection \<open>C1: the leader disconnects\<close>

text \<open>
  Claim C1. When the leader of a room disconnects and another participant remains, the
  leader is removed from the participants, the room stays in the registry and is left
  without a leader. The handler is written to clean up ("Find which rooms this socket was
  in and clean up"), but it walks \<^verbatim>\<open>socket.rooms\<close>, which socket.io has emptied by the
  time it fires \<^verbatim>\<open>disconnect\<close>. So at the disconnect of the leader \<open>L\<close> of \<open>R1\<close>, with
  the participant \<open>P\<close> still there, the handler does nothing: the room is unchanged and
  \<open>L\<close>, no longer connected, is still a participant and still the leader, and nobody is
  told.
\<close>

theorem leader_disconnect_leaves_leader:
  "run scenario = scenario_state
   \<and> step scenario_state (Disconnect ''L'' []) =
       (scenario_state\<lparr> sockets := (sockets scenario_state)(''L'' := None) \<rparr>, [])
   \<and> rooms (fst (step scenario_state (Disconnect ''L'' []))) ''R1'' = Some scenario_room
   \<and> leaderId scenario_room = Some ''L''
   \<and> participants scenario_room ''L'' = Some ''Lea''
   \<and> participants scenario_room ''P'' = Some ''Pat''
   \<and> sockets (fst (step scenario_state (Disconnect ''L'' []))) ''L'' = None"
  by (simp add: run_scenario)
     (simp add: scenario_state_def scenario_room_def scenario_sock_def step_def disconnect_def)

subsection \<open>C2: drift correction\<close>

text \<open>
  Claim C2 says that a follower corrects exactly when the drift exceeds 150 ms, by a
  tenth of the drift below 500 ms and by a seek to the expected time from 500 ms on.
  Neither path of the code does that. With expected time 10 and actual time 11 the
  engine's \<^verbatim>\<open>applyCorrectionIfNeeded\<close> seeks to 10.5, half way, not to 10. The
  follower's own effect, with expected time 10 and actual time 10.3 (a drift of 300 ms),
  makes no call on the player at all.
\<close>

theorem drift_policy_counterexample:
  "\<bar>calculateDrift 10 11\<bar> \<ge> 0.5
   \<and> applyCorrectionIfNeeded initialSyncState 10 11
       = (initialSyncState\<lparr> driftHistory := [1] \<rparr>, Some 10.5, True)
   \<and> (10.5::real) \<noteq> 10
   \<and> calculateCurrentMediaTime (syncEngine scenario_follower) (currentTime (room scenario_follower))
        7000 (c_isPlaying (room scenario_follower)) 7000 = 10
   \<and> \<bar>calculateDrift 10 10.3\<bar> > 0.15
   \<and> follower_sync scenario_follower True 1 10.3 7000 7000 = (scenario_follower, [])"
  by (simp add: applyCorrectionIfNeeded_def calculateDrift_def recordDrift_def shouldCorrectDrift_def
       calculateCorrectionAmount_def initialSyncState_def DRIFT_HISTORY_SIZE_def MAX_DRIFT_MS_def
       Let_def follower_sync_def scenario_follower_def calculateCurrentMediaTime_def getServerTime_def)

text \<open>
  Claim C2, amended. \<^verbatim>\<open>applyCorrectionIfNeeded\<close> calls \<^verbatim>\<open>onSeek\<close> exactly when the
  drift exceeds 0.15 s; the target is the actual time minus a tenth of the drift when
  the drift is below 0.5 s, and minus half of the drift otherwise, which is the midpoint
  of actual and expected time. The follower's effect does not use that helper: when
  leader and follower both play, it seeks to the expected time exactly when the two
  differ by more than 0.5 s, and makes no call otherwise.
\<close>

theorem drift_policy:
  "applyCorrectionIfNeeded st e a =
     (recordDrift st (a - e),
      (if \<bar>a - e\<bar> > 0.15
       then Some (if \<bar>a - e\<bar> < 0.5 then a - 0.1 * (a - e) else a - 0.5 * (a - e))
       else None),
      \<bar>a - e\<bar> > 0.15)
   \<and> a - 0.5 * (a - e) = (a + e) / 2
   \<and> (\<not> isLeader (room s) \<and> ready \<and> truthy (c_mediaKind (room s)) \<and> truthy (c_mediaRef (room s))
        \<and> c_isPlaying (room s) \<and> playerState = 1 \<longrightarrow>
       snd (follower_sync s ready playerState a now now2) =
         (let expected = calculateCurrentMediaTime (syncEngine s) (currentTime (room s)) now True now2
          in if \<bar>expected - a\<bar> > 0.5 then [SeekTo expected] else []))"
proof -
  have 1: "applyCorrectionIfNeeded st e a =
     (recordDrift st (a - e),
      (if \<bar>a - e\<bar> > 0.15
       then Some (if \<bar>a - e\<bar> < 0.5 then a - 0.1 * (a - e) else a - 0.5 * (a - e))
       else None),
      \<bar>a - e\<bar> > 0.15)"
    by (simp add: applyCorrectionIfNeeded_def calculateDrift_def shouldCorrectDrift_def
          calculateCorrectionAmount_def MAX_DRIFT_MS_def Let_def)
  have 2: "a - 0.5 * (a - e) = (a + e) / 2"
    by (simp add: field_simps)
  have 3: "\<not> isLeader (room s) \<and> ready \<and> truthy (c_mediaKind (room s)) \<and> truthy (c_mediaRef (room s))
        \<and> c_isPlaying (room s) \<and> playerState = 1 \<longrightarrow>
       snd (follower_sync s ready playerState a now now2) =
         (let expected = calculateCurrentMediaTime (syncEngine s) (currentTime (room s)) now True now2
          in if \<bar>expected - a\<bar> > 0.5 then [SeekTo expected] else [])"
    by (simp add: follower_sync_def Let_def)
  from 1 2 3 show ?thesis by blast
qed

theorem drift_policy_witness:
  "\<not> isLeader (room scenario_follower) \<and> True \<and> truthy (c_mediaKind (room scenario_follower))
   \<and> truthy (c_mediaRef (room scenario_follower)) \<and> c_isPlaying (room scenario_follower) \<and> (1::int) = 1
   \<and> snd (follower_sync scenario_follower True 1 11 7000 7000) = [SeekTo 10]
   \<and> fst (snd (applyCorrectionIfNeeded initialSyncState 10 10.3)) = Some 10.27
   \<and> fst (snd (applyCorrectionIfNeeded initialSyncState 10 11)) = Some 10.5"
proof -
  have h: "\<not> isLeader (room scenario_follower) \<and> True \<and> truthy (c_mediaKind (room scenario_follower))
   \<and> truthy (c_mediaRef (room scenario_follower)) \<and> c_isPlaying (room scenario_follower) \<and> (1::int) = 1"
    by (simp add: scenario_follower_def)
  have e: "calculateCurrentMediaTime (syncEngine scenario_follower)
             (currentTime (room scenario_follower)) 7000 True 7000 = 10"
    by (simp add: calculateCurrentMediaTime_def getServerTime_def scenario_follower_def
          initialSyncState_def)
  from drift_policy [of initialSyncState 10 "10.3" scenario_follower True 1 7000 7000]
  have a: "fst (snd (applyCorrectionIfNeeded initialSyncState 10 10.3)) = Some 10.27"
    by simp
  from drift_policy [of initialSyncState 10 11 scenario_follower True 1 7000 7000] h e
  have b: "fst (snd (applyCorrectionIfNeeded initialSyncState 10 11)) = Some 10.5
           \<and> snd (follower_sync scenario_follower True 1 11 7000 7000) = [SeekTo 10]"
    by simp
  from h a b show ?thesis by blast
qed

subsection \<open>C3: no empty room\<close>

text \<open>
  Claim C3. After any sequence of server events (connect, join, approve, reject, kick,
  promote, leave, disconnect and the media messages) every room in the registry has at
  least one participant.
\<close>

theorem participants_nonempty:
  "rooms (run evs) roomId = Some r \<Longrightarrow> dom (participants r) \<noteq> {}"
proof -
  assume "rooms (run evs) roomId = Some r"
  with run_ok have "room_ok r" by (rule server_ok_roomD)
  then show ?thesis unfolding room_ok_def by blast
qed

theorem participants_nonempty_witness:
  "rooms (run scenario) ''R1'' = Some scenario_room \<and> dom (participants scenario_room) \<noteq> {}"
  using participants_nonempty [of scenario "''R1''" scenario_room]
  by (simp add: run_scenario scenario_state_def)

subsection \<open>C4: the leader is a participant\<close>

text \<open>
  Claim C4. In every state the server can reach, the \<open>leaderId\<close> of every room is
  null or a key of the participants of that room. \<^verbatim>\<open>promoteLeader\<close> tests membership
  with \<^verbatim>\<open>room.participants[newLeaderId]\<close>, which also finds the members inherited
  from \<^verbatim>\<open>Object.prototype\<close>. After \<open>scenario_promote\<close> the leader of \<open>R1\<close> is
  \<^verbatim>\<open>toString\<close>, which is not a key of its participants.
\<close>

theorem promote_inherited_name:
  "rooms (run scenario_promote) ''R1'' = Some promoted_room
   \<and> leaderId promoted_room = Some ''toString''
   \<and> dom (participants promoted_room) = {''L''}
   \<and> ''toString'' \<notin> dom (participants promoted_room)"
  by (simp add: run_def scenario_promote_def promoted_room_def
        step_def initialServer_def newSock_def join_room_def getRoom_def admit_def socket_join_def
        map_sock_def addParticipant_def createRoom_def newRoom_def promote_leader_def
        promoteLeader_def has_property_def object_prototype_names_def Let_def)

subsection \<open>C5: clock offset and extrapolation\<close>

text \<open>
  Claim C5. A probe sent at local time \<open>t0\<close> and answered with the server timestamp \<open>S\<close>
  at local time \<open>t1\<close> sets the offset to \<open>S + (t1 - t0) / 2 - t1\<close>; the expected media
  position is \<open>leaderMediaTime + (now + offset - leaderServerTs) / 1000\<close> while playing
  and exactly \<open>leaderMediaTime\<close> while paused.
\<close>

theorem offset_and_extrapolation:
  "truthy serverUrl \<Longrightarrow>
     serverOffset (calculateServerOffset st serverUrl t0 (Some S) t1 tDone) = S + (t1 - t0) / 2 - t1
   \<and> calculateCurrentMediaTime st lmt lts True now = lmt + (now + serverOffset st - lts) / 1000
   \<and> calculateCurrentMediaTime st lmt lts False now = lmt"
  by (simp add: calculateServerOffset_def calculateCurrentMediaTime_def getServerTime_def Let_def)

theorem offset_and_extrapolation_witness:
  "truthy (Some ''http://localhost:3001'')
   \<and> serverOffset (calculateServerOffset initialSyncState (Some ''http://localhost:3001'')
        1000 (Some 5040) 1020 1021) = 4030
   \<and> calculateCurrentMediaTime (initialSyncState\<lparr> serverOffset := 50 \<rparr>) 10 2000 True 2700 = 10.75
   \<and> calculateCurrentMediaTime (initialSyncState\<lparr> serverOffset := 50 \<rparr>) 10 2000 False 2700 = 10"
  using offset_and_extrapolation [of "Some ''http://localhost:3001''" initialSyncState 1000 5040 1020 1021]
        offset_and_extrapolation [of "Some ''http://localhost:3001''"
          "initialSyncState\<lparr> serverOffset := 50 \<rparr>" 0 0 0 0 10 2000 2700]
  by (simp add: initialSyncState_def)

subsection \<open>C6: share tokens expire\<close>

text \<open>
  Claim C6. A \<^verbatim>\<open>join_room\<close> that presents a share token of a room with a leader
  admits the caller, as a non-leader, exactly when \<open>now < expiresAt\<close>. Otherwise the
  token is deleted, the caller gets the expired-link error, and neither the participants
  nor the pending requests change. A token that expired one millisecond ago is
  refused; one that expires in one millisecond is accepted.
\<close>

theorem share_token_expiry:
  assumes "rooms st roomId = Some r" and "truthy (leaderId r)"
    and "t \<noteq> []" and "shareTokens r = Some toks" and "toks t = Some td"
  shows "(now < expiresAt td \<longrightarrow>
            join_room st sid roomId nm (Some t) now now2 =
              ((socket_join sid roomId st)\<lparr> rooms := (rooms st)(roomId \<mapsto>
                   r\<lparr> participants := (participants r)(sid \<mapsto> nm) \<rparr>) \<rparr>,
               [(Ack sid, Join_ack sid False (mediaKind r) (mediaRef r) (isPlaying r)
                            (leaderMediaTime r) (leaderServerTs r)),
                (ToRoomExcept roomId sid, Participant_joined sid nm ((participants r)(sid \<mapsto> nm)))]))
       \<and> (\<not> now < expiresAt td \<longrightarrow>
            join_room st sid roomId nm (Some t) now now2 =
              (st\<lparr> rooms := (rooms st)(roomId \<mapsto> r\<lparr> shareTokens := Some (toks(t := None)) \<rparr>) \<rparr>,
               [(Ack sid, Join_error expired_link)]))
       \<and> ((\<exists>a b c d e. (Ack sid, Join_ack sid False a b c d e)
              \<in> set (snd (join_room st sid roomId nm (Some t) now now2))) = (now < expiresAt td))
       \<and> (expiresAt td = now - 1 \<longrightarrow>
            snd (join_room st sid roomId nm (Some t) now now2) = [(Ack sid, Join_error expired_link)])
       \<and> (expiresAt td = now + 1 \<longrightarrow>
            (\<exists>r'. rooms (fst (join_room st sid roomId nm (Some t) now now2)) roomId = Some r'
                  \<and> participants r' sid = Some nm))"
proof -
  have ft: "find_token (Some t) r = Some (t, td)"
    using assms(3-5) by (simp add: find_token_def)
  have adm: "admit st sid roomId nm True =
              ((socket_join sid roomId st)\<lparr> rooms := (rooms st)(roomId \<mapsto>
                   r\<lparr> participants := (participants r)(sid \<mapsto> nm) \<rparr>) \<rparr>,
               [(Ack sid, Join_ack sid False (mediaKind r) (mediaRef r) (isPlaying r)
                            (leaderMediaTime r) (leaderServerTs r)),
                (ToRoomExcept roomId sid, Participant_joined sid nm ((participants r)(sid \<mapsto> nm)))])"
    using assms(1,2)
    by (simp add: admit_def addParticipant_def createRoom_def socket_join_def Let_def)
  have yes: "now < expiresAt td \<Longrightarrow>
               join_room st sid roomId nm (Some t) now now2 = admit st sid roomId nm True"
    using assms(1,2) ft by (simp add: join_room_def getRoom_def)
  have no: "\<not> now < expiresAt td \<Longrightarrow>
              join_room st sid roomId nm (Some t) now now2 =
              (st\<lparr> rooms := (rooms st)(roomId \<mapsto> r\<lparr> shareTokens := Some (toks(t := None)) \<rparr>) \<rparr>,
               [(Ack sid, Join_error expired_link)])"
    using assms(1,2,4) ft by (simp add: join_room_def getRoom_def)
  show ?thesis
  proof (cases "now < expiresAt td")
    case True
    with yes adm show ?thesis by simp
  next
    case False
    with no show ?thesis by simp
  qed
qed

theorem share_token_expiry_witness:
  "rooms token_state ''R1'' = Some token_room \<and> truthy (leaderId token_room) \<and> ''tok'' \<noteq> []
   \<and> shareTokens token_room = Some [''tok'' \<mapsto> scenario_token]
   \<and> [''tok'' \<mapsto> scenario_token] ''tok'' = Some scenario_token
   \<and> expiresAt scenario_token = 86400006 - 1
   \<and> snd (join_room token_state ''Q'' ''R1'' ''Quinn'' (Some ''tok'') 86400006 86400006)
       = [(Ack ''Q'', Join_error expired_link)]
   \<and> expiresAt scenario_token = 86400004 + 1
   \<and> (\<exists>r'. rooms (fst (join_room token_state ''Q'' ''R1'' ''Quinn'' (Some ''tok'') 86400004 86400004))
               ''R1'' = Some r' \<and> participants r' ''Q'' = Some ''Quinn'')"
proof -
  have h1: "rooms token_state ''R1'' = Some token_room"
    by (simp add: token_state_def)
  have h2: "truthy (leaderId token_room)"
    by (simp add: token_room_def scenario_room_def)
  have h3: "''tok'' \<noteq> []" by simp
  have h4: "shareTokens token_room = Some [''tok'' \<mapsto> scenario_token]"
    by (simp add: token_room_def)
  have h5: "[''tok'' \<mapsto> scenario_token] ''tok'' = Some scenario_token" by simp
  have e1: "expiresAt scenario_token = 86400006 - 1" by (simp add: scenario_token_def)
  have e2: "expiresAt scenario_token = 86400004 + 1" by (simp add: scenario_token_def)
  from share_token_expiry [OF h1 h2 h3 h4 h5, of 86400006 "''Q''" "''Quinn''" 86400006]
       share_token_expiry [OF h1 h2 h3 h4 h5, of 86400004 "''Q''" "''Quinn''" 86400004]
       h1 h2 h3 h4 h5 e1 e2
  show ?thesis by blast
qed

subsection \<open>C7: messages of a non-leader are dropped\<close>

text \<open>
  Claim C7. A \<^verbatim>\<open>control\<close> or \<^verbatim>\<open>leader_state\<close> message for a room that does not
  exist, or from a sender who is not its leader, changes nothing and sends nothing.
\<close>

theorem nonleader_dropped:
  "rooms st roomId = None \<or> (\<exists>r. rooms st roomId = Some r \<and> leaderId r \<noteq> Some sid) \<Longrightarrow>
     control st sid roomId ty toTime now = (st, [])
   \<and> leader_state st sid roomId mediaTime playing mk mr now = (st, [])
   \<and> step st (Control sid roomId ty toTime now) = (st, [])
   \<and> step st (LeaderState sid roomId mediaTime playing mk mr now) = (st, [])"
  by (auto simp: control_def leader_state_def step_def getRoom_def)

theorem nonleader_dropped_witness:
  "(rooms scenario_state ''R1'' = None
     \<or> (\<exists>r. rooms scenario_state ''R1'' = Some r \<and> leaderId r \<noteq> Some ''P''))
   \<and> control scenario_state ''P'' ''R1'' ''SEEK'' (Some 42) 9 = (scenario_state, [])
   \<and> leader_state scenario_state ''P'' ''R1'' 42 True None None 9 = (scenario_state, [])
   \<and> control scenario_state ''L'' ''R9'' ''PLAY'' None 9 = (scenario_state, [])"
proof -
  have h1: "rooms scenario_state ''R1'' = None
     \<or> (\<exists>r. rooms scenario_state ''R1'' = Some r \<and> leaderId r \<noteq> Some ''P'')"
    by (simp add: scenario_state_def scenario_room_def)
  have h2: "rooms scenario_state ''R9'' = None
     \<or> (\<exists>r. rooms scenario_state ''R9'' = Some r \<and> leaderId r \<noteq> Some ''L'')"
    by (simp add: scenario_state_def)
  show ?thesis
    using h1 nonleader_dropped [OF h1, of "''SEEK''" "Some 42" 9 42 True None None]
          nonleader_dropped [OF h2, of "''PLAY''" None 9 0 False None None]
    by simp
qed

subsection \<open>C8: the leader seeks\<close>

text \<open>
  Claim C8. A \<^verbatim>\<open>SEEK\<close> of the leader with a numeric \<open>toTime\<close> sets
  \<open>leaderMediaTime\<close> to it and stamps \<open>leaderServerTs\<close>, leaves \<open>isPlaying\<close> as it is, and
  sends the new state with \<^verbatim>\<open>io.to(room)\<close>, which reaches every socket in the transport
  room, the leader too. Without a numeric \<open>toTime\<close> the room is unchanged. A client that
  receives the \<^verbatim>\<open>SEEK\<close> resets its drift history.
\<close>

theorem leader_seek:
  assumes "rooms st roomId = Some r" and "leaderId r = Some sid"
  shows "control st sid roomId ''SEEK'' (Some t) now =
           (st\<lparr> rooms := (rooms st)(roomId \<mapsto> r\<lparr> leaderMediaTime := t, leaderServerTs := now \<rparr>) \<rparr>,
            [(ToRoom roomId, Control_update ''SEEK'' (Some t) t now (isPlaying r))])
       \<and> control st sid roomId ''SEEK'' None now =
           (st, [(ToRoom roomId,
                  Control_update ''SEEK'' None (leaderMediaTime r) (leaderServerTs r) (isPlaying r))])
       \<and> recipients (fst (control st sid roomId ''SEEK'' (Some t) now)) (ToRoom roomId)
           = {x. in_transport_room st x roomId}
       \<and> (in_transport_room st sid roomId \<longrightarrow>
            sid \<in> recipients (fst (control st sid roomId ''SEEK'' (Some t) now)) (ToRoom roomId))
       \<and> driftHistory (syncEngine
            (on_control_update s ''SEEK'' (Some t) t now (isPlaying r) now2)) = []
       \<and> c_isPlaying (room (on_control_update s ''SEEK'' (Some t) t now (isPlaying r) now2))
           = isPlaying r
       \<and> currentTime (room (on_control_update s ''SEEK'' (Some t) t now (isPlaying r) now2)) = t"
proof -
  have idem: "(rooms st)(roomId \<mapsto> r) = rooms st"
    using assms(1) by (simp add: fun_upd_idem)
  have a: "control st sid roomId ''SEEK'' (Some t) now =
           (st\<lparr> rooms := (rooms st)(roomId \<mapsto> r\<lparr> leaderMediaTime := t, leaderServerTs := now \<rparr>) \<rparr>,
            [(ToRoom roomId, Control_update ''SEEK'' (Some t) t now (isPlaying r))])"
    using assms by (simp add: control_def getRoom_def)
  have b: "control st sid roomId ''SEEK'' None now =
           (st, [(ToRoom roomId,
                  Control_update ''SEEK'' None (leaderMediaTime r) (leaderServerTs r) (isPlaying r))])"
    using assms by (simp add: control_def getRoom_def idem)
  have c: "recipients (fst (control st sid roomId ''SEEK'' (Some t) now)) (ToRoom roomId)
           = {x. in_transport_room st x roomId}"
    unfolding a by (simp add: in_transport_room_def)
  have d: "driftHistory (syncEngine
            (on_control_update s ''SEEK'' (Some t) t now (isPlaying r) now2)) = []
       \<and> c_isPlaying (room (on_control_update s ''SEEK'' (Some t) t now (isPlaying r) now2))
           = isPlaying r
       \<and> currentTime (room (on_control_update s ''SEEK'' (Some t) t now (isPlaying r) now2)) = t"
    by (simp add: on_control_update_def resetDriftHistory_def)
  from a b c d show ?thesis by simp
qed

theorem leader_seek_witness:
  "rooms scenario_state ''R1'' = Some scenario_room \<and> leaderId scenario_room = Some ''L''
   \<and> control scenario_state ''L'' ''R1'' ''SEEK'' (Some 42) 9 =
       (scenario_state\<lparr> rooms := (rooms scenario_state)(''R1'' \<mapsto>
            scenario_room\<lparr> leaderMediaTime := 42, leaderServerTs := 9 \<rparr>) \<rparr>,
        [(ToRoom ''R1'', Control_update ''SEEK'' (Some 42) 42 9 False)])
   \<and> recipients (fst (control scenario_state ''L'' ''R1'' ''SEEK'' (Some 42) 9)) (ToRoom ''R1'')
       = {''L'', ''P''}
   \<and> driftHistory (syncEngine (on_control_update scenario_follower ''SEEK'' (Some 42) 42 9 False 9)) = []"
proof -
  have h1: "rooms scenario_state ''R1'' = Some scenario_room"
    by (simp add: scenario_state_def)
  have h2: "leaderId scenario_room = Some ''L''"
    by (simp add: scenario_room_def)
  have r: "{x. in_transport_room scenario_state x ''R1''} = {''L'', ''P''}"
    by (auto simp: in_transport_room_def scenario_state_def scenario_sock_def split: if_splits)
  have p: "isPlaying scenario_room = False" by (simp add: scenario_room_def)
  from leader_seek [OF h1 h2, of 42 9 scenario_follower 9] h1 h2
  show ?thesis unfolding r p by blast
qed

subsection \<open>C9: a stale approval\<close>

text \<open>
  Claim C9. After a socket has disconnected it is no longer among the connected sockets,
  and its stored join callback is gone with it. When the leader then approves a
  pending request of that socket, no participant is added, no callback is called, and
  the pending request is removed. \<open>pending_state\<close> is reached by \<open>scenario_pending\<close>.
\<close>

theorem stale_approval:
  assumes "st1 = fst (step st (Disconnect x socketRooms))"
    and "rooms st1 roomId = Some r1" and "leaderId r1 = Some ldr"
    and "pendingRequests r1 = Some pr" and "pr requestId = Some req" and "socketId req = x"
  shows "sockets st1 x = None
       \<and> approve_participant st1 ldr roomId requestId =
           (st1\<lparr> rooms := (rooms st1)(roomId \<mapsto>
                   r1\<lparr> pendingRequests := Some (pr(requestId := None)) \<rparr>) \<rparr>, [])"
proof -
  have gone: "sockets st1 x = None"
    unfolding assms(1) by (simp add: step_def disconnect_def split_beta)
  with assms(2-6) show ?thesis
    by (simp add: approve_participant_def getRoom_def)
qed

theorem stale_approval_witness:
  "rooms (fst (step pending_state (Disconnect ''P'' [''P'']))) ''R1'' = Some pending_room
   \<and> leaderId pending_room = Some ''L''
   \<and> pendingRequests pending_room
       = Some [(''P'', 2) \<mapsto> \<lparr> socketId = ''P'', reqName = ''Pat'', timestamp = 2 \<rparr>]
   \<and> sockets (fst (step pending_state (Disconnect ''P'' [''P'']))) ''P'' = None
   \<and> snd (approve_participant (fst (step pending_state (Disconnect ''P'' [''P'']))) ''L'' ''R1'' (''P'', 2)) = []
   \<and> map_option participants
       (rooms (fst (approve_participant (fst (step pending_state (Disconnect ''P'' [''P''])))
                 ''L'' ''R1'' (''P'', 2))) ''R1'') = Some [''L'' \<mapsto> ''Lea'']
   \<and> map_option pendingRequests
       (rooms (fst (approve_participant (fst (step pending_state (Disconnect ''P'' [''P''])))
                 ''L'' ''R1'' (''P'', 2))) ''R1'') = Some (Some Map.empty)"
proof -
  have h2: "rooms (fst (step pending_state (Disconnect ''P'' [''P'']))) ''R1'' = Some pending_room"
    by (simp add: pending_state_def step_def disconnect_def disconnect_room_def)
  have h3: "leaderId pending_room = Some ''L''" by (simp add: pending_room_def)
  have h4: "pendingRequests pending_room
       = Some [(''P'', 2) \<mapsto> \<lparr> socketId = ''P'', reqName = ''Pat'', timestamp = 2 \<rparr>]"
    by (simp add: pending_room_def)
  have h5: "[(''P'', 2::real) \<mapsto> \<lparr> socketId = ''P'', reqName = ''Pat'', timestamp = 2 \<rparr>] (''P'', 2)
              = Some \<lparr> socketId = ''P'', reqName = ''Pat'', timestamp = 2 \<rparr>" by simp
  have h6: "socketId \<lparr> socketId = ''P'', reqName = ''Pat'', timestamp = 2 \<rparr> = ''P''" by simp
  have p: "participants pending_room = [''L'' \<mapsto> ''Lea'']" by (simp add: pending_room_def)
  from stale_approval [OF refl h2 h3 h4 h5 h6] h2 h3 h4 p
  show ?thesis by (simp add: fun_eq_iff)
qed

subsection \<open>C10: adding a participant twice\<close>

text \<open>
  Claim C10. In every state the server can reach, \<^verbatim>\<open>addParticipant\<close> for a socket
  that is already a participant of the room leaves the set of participants, the leader
  and the media fields of the room as they are.
\<close>

theorem duplicate_add_idempotent:
  assumes "rooms (run evs) roomId = Some r" and "participants r sid \<noteq> None"
  shows "(case addParticipant (rooms (run evs)) roomId sid nm of (rs', r') \<Rightarrow>
            rs' = (rooms (run evs))(roomId \<mapsto> r')
          \<and> dom (participants r') = dom (participants r)
          \<and> leaderId r' = leaderId r
          \<and> mediaKind r' = mediaKind r \<and> mediaRef r' = mediaRef r \<and> isPlaying r' = isPlaying r
          \<and> leaderMediaTime r' = leaderMediaTime r \<and> leaderServerTs r' = leaderServerTs r)"
proof -
  from run_ok assms(1) have "room_ok r" by (rule server_ok_roomD)
  then have "truthy (leaderId r)" by (rule room_ok_leader)
  with assms show ?thesis
    by (auto simp: addParticipant_def createRoom_def Let_def)
qed

theorem duplicate_add_idempotent_witness:
  "rooms (run scenario) ''R1'' = Some scenario_room \<and> participants scenario_room ''P'' \<noteq> None
   \<and> leaderId (snd (addParticipant (rooms (run scenario)) ''R1'' ''P'' ''Patricia'')) = Some ''L''
   \<and> dom (participants (snd (addParticipant (rooms (run scenario)) ''R1'' ''P'' ''Patricia'')))
       = {''L'', ''P''}"
  using duplicate_add_idempotent [of scenario "''R1''" scenario_room "''P''" "''Patricia''"]
  by (auto simp: run_scenario scenario_state_def scenario_room_def split_beta)

end
